theory Spec2Isabelle
  imports Main
begin

section \<open>Countdown Clock: the state of \<open>CountdownTimer\<close>\<close>

text \<open>
  \<^verbatim>\<open>useState({ hours: 1, minutes: 24, seconds: 59 })\<close> holds an object with three
  \<open>number\<close> fields. A \<open>number\<close> is a binary64 value; the countdown holds whole
  numbers, so a field is modelled as the \<open>int\<close> it denotes, and the arithmetic of
  the updater as binary64 arithmetic on whole numbers: the exact result, rounded to
  the nearest value with a 53-bit significand, ties to the even significand.
  Comparison with \<open>0\<close> is exact.
\<close>

record timeLeft =
  hours :: int
  minutes :: int
  seconds :: int

text \<open>The argument of \<open>useState\<close> in \<open>CountdownTimer\<close>.\<close>

definition initialTimeLeft :: timeLeft where
  "initialTimeLeft = \<lparr>hours = 1, minutes = 24, seconds = 59\<rparr>"

text \<open>
  The spacing of the binary64 values around a whole number \<open>n\<close>: below \<open>2^53\<close>
  every whole number is a value; from \<open>2^(52+k)\<close> up to \<open>2^(53+k)\<close> only the
  multiples of \<open>2^k\<close> are.
\<close>

fun ulp :: "nat \<Rightarrow> nat" where
  "ulp n = (if n < 2 ^ 53 then 1 else 2 * ulp (n div 2))"

declare ulp.simps [simp del]

text \<open>
  Rounding to the nearest binary64 value, ties to even. The whole numbers that are
  binary64 values are the fixed points of \<open>roundNumber\<close> (up to the largest finite
  value, far above anything used here).
\<close>

definition roundNat :: "nat \<Rightarrow> nat" where
  "roundNat n =
     (let u = ulp n; q = n div u; r = n mod u
      in if 2 * r < u then q * u
         else if u < 2 * r then (q + 1) * u
         else if even q then q * u
         else (q + 1) * u)"

definition roundNumber :: "int \<Rightarrow> int" where
  "roundNumber x =
     (if x < 0 then - int (roundNat (nat (- x))) else int (roundNat (nat x)))"

text \<open>The operator \<open>-\<close> of the source on whole numbers.\<close>

definition jsMinus :: "int \<Rightarrow> int \<Rightarrow> int" where
  "jsMinus a b = roundNumber (a - b)"

text \<open>
  The updater passed to \<open>setTimeLeft\<close> by the interval callback:
  \<^verbatim>\<open>
  prev => {
    if (prev.seconds > 0) return { ...prev, seconds: prev.seconds - 1 };
    if (prev.minutes > 0) return { ...prev, minutes: prev.minutes - 1, seconds: 59 };
    if (prev.hours > 0) return { hours: prev.hours - 1, minutes: 59, seconds: 59 };
    return prev;
  }
  \<close>
  The spread \<open>{ ...prev, f: v }\<close> is a record update; the third branch builds a new
  object.
\<close>

definition tick :: "timeLeft \<Rightarrow> timeLeft" where
  "tick prev =
     (if seconds prev > 0 then prev\<lparr>seconds := jsMinus (seconds prev) 1\<rparr>
      else if minutes prev > 0
        then prev\<lparr>minutes := jsMinus (minutes prev) 1, seconds := 59\<rparr>
      else if hours prev > 0
        then \<lparr>hours = jsMinus (hours prev) 1, minutes = 59, seconds = 59\<rparr>
      else prev)"

text \<open>\<open>n\<close> firings of the interval callback, each applying the updater once.\<close>

primrec ticks :: "nat \<Rightarrow> timeLeft \<Rightarrow> timeLeft" where
  "ticks 0 t = t"
| "ticks (Suc n) t = ticks n (tick t)"

text \<open>The total number of seconds a state stands for.\<close>

definition toSeconds :: "timeLeft \<Rightarrow> int" where
  "toSeconds t = hours t * 3600 + minutes t * 60 + seconds t"

text \<open>
  The tick algorithm as the specification words it, on a triple
  \<open>(hours, minutes, seconds)\<close> of unsigned integers: each case assigns to the
  fields it names and leaves the others alone, and \<open>-= 1\<close> is the predecessor.
\<close>

fun tick_spec :: "int \<times> int \<times> int \<Rightarrow> int \<times> int \<times> int" where
  "tick_spec (h, m, s) =
     (if s > 0 then (h, m, s - 1)
      else if m > 0 then (h, m - 1, 59)
      else if h > 0 then (h - 1, 59, 59)
      else (h, m, s))"

definition triple :: "timeLeft \<Rightarrow> int \<times> int \<times> int" where
  "triple t = (hours t, minutes t, seconds t)"

text \<open>
  The states on which the updater computes without rounding: every field is a whole
  number from \<open>0\<close> to \<open>2^53\<close>.
\<close>

definition safe :: "timeLeft \<Rightarrow> bool" where
  "safe t =
     (0 \<le> hours t \<and> hours t \<le> 2 ^ 53 \<and> 0 \<le> minutes t \<and> minutes t \<le> 2 ^ 53
      \<and> 0 \<le> seconds t \<and> seconds t \<le> 2 ^ 53)"

definition zeroTime :: timeLeft where
  "zeroTime = \<lparr>hours = 0, minutes = 0, seconds = 0\<rparr>"

section \<open>Countdown Clock: formatting a field\<close>

text \<open>
  \<^verbatim>\<open>const format = (n: number) => n.toString().padStart(2, '0');\<close>

  \<open>Number.prototype.toString\<close> renders a whole number below \<open>10^21\<close> in magnitude
  as its decimal digits, most significant first, with a leading \<open>-\<close> when it is
  negative. \<open>digitChar\<close> is only applied to values below ten.
\<close>

definition digitChar :: "nat \<Rightarrow> char" where
  "digitChar d = ''0123456789'' ! d"

fun digitsOf :: "nat \<Rightarrow> string" where
  "digitsOf n = (if n < 10 then [digitChar n] else digitsOf (n div 10) @ [digitChar (n mod 10)])"

declare digitsOf.simps [simp del]

definition toString :: "int \<Rightarrow> string" where
  "toString n = (if n < 0 then CHR ''-'' # digitsOf (nat (- n)) else digitsOf (nat n))"

text \<open>
  \<open>String.prototype.padStart(maxLength, fillString)\<close>: a string that is already
  long enough, or an empty filler, gives the string back; otherwise the filler is
  repeated and cut to the missing length, and put in front.
\<close>

definition padStart :: "nat \<Rightarrow> string \<Rightarrow> string \<Rightarrow> string" where
  "padStart maxLength fillString str =
     (if maxLength \<le> length str \<or> fillString = [] then str
      else take (maxLength - length str)
             (concat (replicate (maxLength - length str) fillString)) @ str)"

definition format :: "int \<Rightarrow> string" where
  "format n = padStart 2 ''0'' (toString n)"

section \<open>Countdown Clock: mounting, the interval and disposal\<close>

text \<open>
  \<^verbatim>\<open>
  useEffect(() => {
    const timer = setInterval(() => { setTimeLeft(prev => ...); }, 1000);
    return () => clearInterval(timer);
  }, []);
  \<close>
  The effect runs once when the instance mounts and its cleanup once when the
  instance is disposed. The page mounts one \<open>CountdownTimer\<close> and nothing else
  schedules a timer, so the world is the instance together with the host's table of
  scheduled intervals:
  \<^item> \<open>mounted\<close> is \<open>None\<close> while no instance exists, and otherwise holds the
    instance's \<open>timeLeft\<close> state and the \<open>timer\<close> id its effect closed over;
  \<^item> \<open>intervals\<close> are the ids of the intervals the host has scheduled;
  \<^item> \<open>nextId\<close> is the id the next \<open>setInterval\<close> returns.
\<close>

record world =
  mounted :: "(timeLeft \<times> nat) option"
  intervals :: "nat list"
  nextId :: nat

definition world0 :: world where
  "world0 = \<lparr>mounted = None, intervals = [], nextId = 1\<rparr>"

definition setInterval :: "world \<Rightarrow> nat \<times> world" where
  "setInterval w =
     (nextId w, w\<lparr>intervals := nextId w # intervals w, nextId := Suc (nextId w)\<rparr>)"

definition clearInterval :: "nat \<Rightarrow> world \<Rightarrow> world" where
  "clearInterval h w = w\<lparr>intervals := removeAll h (intervals w)\<rparr>"

text \<open>
  Mounting creates the state from the constant argument of \<open>useState\<close> and runs the
  effect. Disposal runs the cleanup, which clears the interval without any test, and
  drops the state.
\<close>

definition mount :: "world \<Rightarrow> world" where
  "mount w =
     (case mounted w of
        Some _ \<Rightarrow> w
      | None \<Rightarrow>
          (let (timer, w') = setInterval w
           in w'\<lparr>mounted := Some (initialTimeLeft, timer)\<rparr>))"

definition unmount :: "world \<Rightarrow> world" where
  "unmount w =
     (case mounted w of
        None \<Rightarrow> w
      | Some (_, timer) \<Rightarrow> (clearInterval timer w)\<lparr>mounted := None\<rparr>)"

text \<open>
  The host runs the callback of an interval only while that interval is scheduled.
  The callback calls \<open>setTimeLeft\<close> with the updater \<open>tick\<close>; a state setter of an
  instance that no longer exists changes nothing.
\<close>

definition canFire :: "nat \<Rightarrow> world \<Rightarrow> bool" where
  "canFire h w = (h \<in> set (intervals w))"

definition setTimeLeft :: "(timeLeft \<Rightarrow> timeLeft) \<Rightarrow> world \<Rightarrow> world" where
  "setTimeLeft f w =
     (case mounted w of
        None \<Rightarrow> w
      | Some (prev, timer) \<Rightarrow> w\<lparr>mounted := Some (f prev, timer)\<rparr>)"

definition fire :: "nat \<Rightarrow> world \<Rightarrow> world" where
  "fire h w = (if canFire h w then setTimeLeft tick w else w)"

datatype event = Mount | Fire nat | Unmount

fun step :: "event \<Rightarrow> world \<Rightarrow> world" where
  "step Mount w = mount w"
| "step (Fire h) w = fire h w"
| "step Unmount w = unmount w"

definition run :: "event list \<Rightarrow> world \<Rightarrow> world" where
  "run es w = fold step es w"

text \<open>The scheduled intervals are exactly the one of the mounted instance, if any.\<close>

definition owned :: "world \<Rightarrow> bool" where
  "owned w =
     (intervals w = (case mounted w of None \<Rightarrow> [] | Some (_, timer) \<Rightarrow> [timer]))"

section \<open>Visibility Trigger: \<open>useScrollReveal\<close>\<close>

text \<open>
  \<^verbatim>\<open>
  const [isVisible, setIsVisible] = useState(false);
  const domRef = useRef<HTMLDivElement>(null);
  useEffect(() => {
    const observer = new IntersectionObserver(entries => {
      entries.forEach(entry => {
        if (entry.isIntersecting) { setIsVisible(true); }
      });
    });
    const current = domRef.current;
    if (current) observer.observe(current);
    return () => { if (current) observer.unobserve(current); };
  }, []);
  return { isVisible, domRef };
  \<close>
  The host either defines the global \<open>IntersectionObserver\<close> or does not; naming
  an undefined global raises a \<open>ReferenceError\<close>. Of an observer entry the callback
  reads \<open>isIntersecting\<close> only. The hook's state is the flag, together with whether
  the observer watches the element.
\<close>

datatype error = ReferenceError

record host =
  hasIntersectionObserver :: bool

record entry =
  isIntersecting :: bool

record reveal =
  isVisible :: bool
  observed :: bool

definition useScrollReveal_initial :: reveal where
  "useScrollReveal_initial = \<lparr>isVisible = False, observed = False\<rparr>"

definition setIsVisible :: "bool \<Rightarrow> reveal \<Rightarrow> reveal" where
  "setIsVisible v r = r\<lparr>isVisible := v\<rparr>"

text \<open>The observer's callback, on the batch of entries of one notification.\<close>

definition observerCallback :: "entry list \<Rightarrow> reveal \<Rightarrow> reveal" where
  "observerCallback entries r =
     fold (\<lambda>entry r'. if isIntersecting entry then setIsVisible True r' else r') entries r"

text \<open>
  The effect and its cleanup; \<open>current\<close> says whether \<open>domRef.current\<close> is an
  element. The observer is constructed before anything else, with no test that the
  constructor exists.
\<close>

definition useScrollReveal_effect :: "host \<Rightarrow> bool \<Rightarrow> reveal \<Rightarrow> error + reveal" where
  "useScrollReveal_effect h current r =
     (if \<not> hasIntersectionObserver h then Inl ReferenceError
      else if current then Inr (r\<lparr>observed := True\<rparr>)
      else Inr r)"

definition useScrollReveal_cleanup :: "bool \<Rightarrow> reveal \<Rightarrow> reveal" where
  "useScrollReveal_cleanup current r = (if current then r\<lparr>observed := False\<rparr> else r)"

text \<open>
  Mounting: the first render returns the flag of the fresh state, then the effect
  runs. The result is the flag that render reported and the outcome of the effect.
\<close>

definition useScrollReveal_mount :: "host \<Rightarrow> bool \<Rightarrow> bool \<times> (error + reveal)" where
  "useScrollReveal_mount h current =
     (isVisible useScrollReveal_initial,
      useScrollReveal_effect h current useScrollReveal_initial)"

text \<open>A sequence of notifications, and whether a batch reports an intersection.\<close>

definition deliver :: "entry list list \<Rightarrow> reveal \<Rightarrow> reveal" where
  "deliver batches r = fold observerCallback batches r"

definition intersects :: "entry list \<Rightarrow> bool" where
  "intersects entries = list_ex isIntersecting entries"

section \<open>Disclosure Toggle: \<open>FAQItem\<close>\<close>

text \<open>
  \<^verbatim>\<open>
  const [isOpen, setIsOpen] = useState(false);
  ... <button onClick={() => setIsOpen(!isOpen)} ...
  \<close>
  Every \<open>FAQItem\<close> has a state of its own. The handler negates the \<open>isOpen\<close> of
  the render it belongs to; a click is a discrete event and the instance is rendered
  again before the next one, so that value is the current state. A list of items is
  the list of their states, and a click on item \<open>i\<close> runs the handler of that
  instance alone; there is no item to click outside the list.
\<close>

definition FAQItem_initial :: bool where
  "FAQItem_initial = False"

definition onClick :: "bool \<Rightarrow> bool" where
  "onClick isOpen = (\<not> isOpen)"

definition click :: "nat \<Rightarrow> bool list \<Rightarrow> bool list" where
  "click i items = (if i < length items then items[i := onClick (items ! i)] else items)"

section \<open>Properties of the subtraction\<close>

lemma ulp_small: "n < 2 ^ 53 \<Longrightarrow> ulp n = 1"
  by (simp add: ulp.simps)

lemma roundNat_small: "n < 2 ^ 53 \<Longrightarrow> roundNat n = n"
  by (simp add: roundNat_def ulp_small)

lemma jsMinus_exact: "0 < x \<Longrightarrow> x \<le> 2 ^ 53 \<Longrightarrow> jsMinus x 1 = x - 1"
proof -
  assume p: "0 < x" and b: "x \<le> 2 ^ 53"
  then have "nat (x - 1) < 2 ^ 53" by (simp add: nat_less_iff)
  then have "roundNat (nat (x - 1)) = nat (x - 1)" by (rule roundNat_small)
  with p show ?thesis by (simp add: jsMinus_def roundNumber_def)
qed

text \<open>\<open>2^54\<close> is a binary64 value and its predecessor is not: it rounds back.\<close>

lemma jsMinus_stuck: "jsMinus (2 ^ 54) 1 = 2 ^ 54"
  by (simp add: jsMinus_def roundNumber_def roundNat_def ulp.simps)

lemma jsMinus_stuck_numeral: "jsMinus 18014398509481984 1 = 18014398509481984"
  using jsMinus_stuck by simp

lemma roundNumber_stuck: "roundNumber (2 ^ 54) = 2 ^ 54"
  by (simp add: roundNumber_def roundNat_def ulp.simps)

section \<open>Properties of the tick step\<close>

lemma tick_exact:
  "hours t \<le> 2 ^ 53 \<Longrightarrow> minutes t \<le> 2 ^ 53 \<Longrightarrow> seconds t \<le> 2 ^ 53 \<Longrightarrow>
   tick t =
     (if seconds t > 0 then t\<lparr>seconds := seconds t - 1\<rparr>
      else if minutes t > 0 then t\<lparr>minutes := minutes t - 1, seconds := 59\<rparr>
      else if hours t > 0 then \<lparr>hours = hours t - 1, minutes = 59, seconds = 59\<rparr>
      else t)"
  by (simp add: tick_def jsMinus_exact)

lemma tick_safe: "safe t \<Longrightarrow> safe (tick t)"
  by (simp add: safe_def tick_exact)

lemma toSeconds_nonneg: "safe t \<Longrightarrow> 0 \<le> toSeconds t"
  by (simp add: safe_def toSeconds_def)

lemma toSeconds_tick: "safe t \<Longrightarrow> toSeconds (tick t) = max (toSeconds t - 1) 0"
  by (auto simp: safe_def toSeconds_def tick_exact)

lemma toSeconds_zero: "safe t \<Longrightarrow> toSeconds t = 0 \<Longrightarrow> t = zeroTime"
proof -
  assume n: "safe t" and z: "toSeconds t = 0"
  from n z have "hours t = 0" "minutes t = 0" "seconds t = 0"
    by (auto simp: safe_def toSeconds_def)
  then show ?thesis by (simp add: zeroTime_def)
qed

lemma toSeconds_zeroTime: "toSeconds zeroTime = 0"
  by (simp add: toSeconds_def zeroTime_def)

lemma ticks_safe: "safe t \<Longrightarrow> safe (ticks n t)"
  by (induction n arbitrary: t) (simp_all add: tick_safe)

lemma toSeconds_ticks: "safe t \<Longrightarrow> toSeconds (ticks n t) = max (toSeconds t - int n) 0"
proof (induction n arbitrary: t)
  case 0
  then show ?case by (simp add: toSeconds_nonneg)
next
  case (Suc n)
  have "toSeconds (ticks (Suc n) t) = toSeconds (ticks n (tick t))" by simp
  also have "\<dots> = max (toSeconds (tick t) - int n) 0"
    using Suc.IH [of "tick t"] Suc.prems by (simp add: tick_safe)
  also have "\<dots> = max (toSeconds t - int (Suc n)) 0"
    using Suc.prems by (simp add: toSeconds_tick max_def)
  finally show ?case .
qed

lemma tick_zero: "tick zeroTime = zeroTime"
  by (simp add: tick_def zeroTime_def)

lemma ticks_fixed: "tick t = t \<Longrightarrow> ticks n t = t"
  by (induction n) simp_all

lemma ticks_add: "ticks (m + n) t = ticks n (ticks m t)"
  by (induction m arbitrary: t) simp_all

text \<open>
  C2, as stated for every state, fails: \<open>2^54\<close> seconds is a state of the updater,
  its seconds are above zero, and the tick returns it unchanged where the case
  analysis of the specification decrements the seconds.
\<close>

theorem tick_spec_counterexample:
  "triple (tick \<lparr>hours = 0, minutes = 0, seconds = 2 ^ 54\<rparr>) = (0, 0, 2 ^ 54)
   \<and> tick_spec (triple \<lparr>hours = 0, minutes = 0, seconds = 2 ^ 54\<rparr>) = (0, 0, 2 ^ 54 - 1)
   \<and> triple (tick \<lparr>hours = 0, minutes = 0, seconds = 2 ^ 54\<rparr>)
       \<noteq> tick_spec (triple \<lparr>hours = 0, minutes = 0, seconds = 2 ^ 54\<rparr>)"
  by (simp add: triple_def tick_def jsMinus_stuck_numeral)

text \<open>
  C2, amended. On every state whose fields are whole numbers of magnitude at most
  \<open>2^53\<close>, one tick is exactly the case analysis of the specification: seconds above zero are
  decremented; otherwise minutes above zero are decremented and seconds become 59;
  otherwise hours above zero are decremented and minutes and seconds become 59;
  otherwise the state is unchanged.
\<close>

theorem tick_is_spec_case_analysis:
  "\<bar>hours t\<bar> \<le> 2 ^ 53 \<Longrightarrow> \<bar>minutes t\<bar> \<le> 2 ^ 53 \<Longrightarrow> \<bar>seconds t\<bar> \<le> 2 ^ 53 \<Longrightarrow>
   triple (tick t) = tick_spec (triple t)"
proof -
  assume "\<bar>hours t\<bar> \<le> 2 ^ 53" "\<bar>minutes t\<bar> \<le> 2 ^ 53" "\<bar>seconds t\<bar> \<le> 2 ^ 53"
  then have "hours t \<le> 2 ^ 53" "minutes t \<le> 2 ^ 53" "seconds t \<le> 2 ^ 53"
    by simp_all
  then show ?thesis by (simp add: triple_def tick_exact)
qed

theorem tick_is_spec_case_analysis_witness:
  "triple (tick \<lparr>hours = 1, minutes = 24, seconds = 59\<rparr>) = (1, 24, 58)
   \<and> triple (tick \<lparr>hours = 1, minutes = 24, seconds = 0\<rparr>) = (1, 23, 59)
   \<and> triple (tick \<lparr>hours = 1, minutes = 0, seconds = 0\<rparr>) = (0, 59, 59)
   \<and> triple (tick \<lparr>hours = 0, minutes = 0, seconds = 0\<rparr>) = (0, 0, 0)
   \<and> triple (tick \<lparr>hours = 0, minutes = 0, seconds = 2 ^ 53\<rparr>) = (0, 0, 2 ^ 53 - 1)
   \<and> triple (tick \<lparr>hours = - 5, minutes = 0, seconds = 0\<rparr>) = (- 5, 0, 0)"
  using tick_is_spec_case_analysis [of "\<lparr>hours = 1, minutes = 24, seconds = 59\<rparr>"]
    tick_is_spec_case_analysis [of "\<lparr>hours = 1, minutes = 24, seconds = 0\<rparr>"]
    tick_is_spec_case_analysis [of "\<lparr>hours = 1, minutes = 0, seconds = 0\<rparr>"]
    tick_is_spec_case_analysis [of "\<lparr>hours = 0, minutes = 0, seconds = 0\<rparr>"]
    tick_is_spec_case_analysis [of "\<lparr>hours = 0, minutes = 0, seconds = 2 ^ 53\<rparr>"]
    tick_is_spec_case_analysis [of "\<lparr>hours = - 5, minutes = 0, seconds = 0\<rparr>"]
  by (simp add: triple_def)

text \<open>
  C10, as stated for all non-negative fields, fails: at \<open>2^54\<close> seconds the tick
  leaves the total where it is, and the truncated decrement is one less.
\<close>

theorem tick_refines_counterexample:
  "toSeconds (tick \<lparr>hours = 0, minutes = 0, seconds = 2 ^ 54\<rparr>) = 2 ^ 54
   \<and> max (toSeconds \<lparr>hours = 0, minutes = 0, seconds = 2 ^ 54\<rparr> - 1) 0 = 2 ^ 54 - 1
   \<and> toSeconds (tick \<lparr>hours = 0, minutes = 0, seconds = 2 ^ 54\<rparr>)
       \<noteq> max (toSeconds \<lparr>hours = 0, minutes = 0, seconds = 2 ^ 54\<rparr> - 1) 0"
  by (simp add: toSeconds_def tick_def jsMinus_stuck_numeral)

text \<open>
  C10, amended. Under \<open>toSeconds\<close>, a tick on a state whose fields are whole numbers
  from \<open>0\<close> to \<open>2^53\<close> is the truncated decrement by one of the total number of
  seconds.
\<close>

theorem tick_refines_decrement:
  "0 \<le> hours t \<Longrightarrow> hours t \<le> 2 ^ 53 \<Longrightarrow> 0 \<le> minutes t \<Longrightarrow> minutes t \<le> 2 ^ 53 \<Longrightarrow>
   0 \<le> seconds t \<Longrightarrow> seconds t \<le> 2 ^ 53 \<Longrightarrow>
   toSeconds (tick t) = max (toSeconds t - 1) 0"
  using toSeconds_tick [of t] by (simp add: safe_def)

theorem tick_refines_decrement_witness:
  "toSeconds (tick \<lparr>hours = 1, minutes = 0, seconds = 0\<rparr>) = 3599
   \<and> toSeconds \<lparr>hours = 1, minutes = 0, seconds = 0\<rparr> = 3600
   \<and> toSeconds (tick \<lparr>hours = 0, minutes = 0, seconds = 0\<rparr>) = 0"
  using tick_refines_decrement [of "\<lparr>hours = 1, minutes = 0, seconds = 0\<rparr>"]
    tick_refines_decrement [of "\<lparr>hours = 0, minutes = 0, seconds = 0\<rparr>"]
  by (simp add: toSeconds_def)

text \<open>
  C6, as stated for every \<open>hours \<ge> 0\<close>, fails: at \<open>2^54\<close> hours with minutes and
  seconds at zero, a state inside the bounds of the claim, the borrow leaves the hours
  where they are and sets minutes and seconds to 59, so the total grows by 3599.
\<close>

theorem tick_range_counterexample:
  "tick \<lparr>hours = 2 ^ 54, minutes = 0, seconds = 0\<rparr>
     = \<lparr>hours = 2 ^ 54, minutes = 59, seconds = 59\<rparr>
   \<and> toSeconds (tick \<lparr>hours = 2 ^ 54, minutes = 0, seconds = 0\<rparr>)
       = toSeconds \<lparr>hours = 2 ^ 54, minutes = 0, seconds = 0\<rparr> + 3599
   \<and> \<not> toSeconds (tick \<lparr>hours = 2 ^ 54, minutes = 0, seconds = 0\<rparr>)
       \<le> toSeconds \<lparr>hours = 2 ^ 54, minutes = 0, seconds = 0\<rparr>"
  by (simp add: toSeconds_def tick_def jsMinus_stuck_numeral)

text \<open>
  C6, amended. On a state with \<open>0 \<le> hours \<le> 2^53\<close>, \<open>0 \<le> minutes \<le> 59\<close> and
  \<open>0 \<le> seconds \<le> 59\<close>, a tick keeps these bounds, so no field becomes negative,
  and the total number of seconds does not grow.
\<close>

theorem tick_preserves_range:
  "0 \<le> hours t \<Longrightarrow> hours t \<le> 2 ^ 53 \<Longrightarrow> 0 \<le> minutes t \<Longrightarrow> minutes t \<le> 59 \<Longrightarrow>
   0 \<le> seconds t \<Longrightarrow> seconds t \<le> 59 \<Longrightarrow>
   0 \<le> hours (tick t) \<and> hours (tick t) \<le> 2 ^ 53
   \<and> 0 \<le> minutes (tick t) \<and> minutes (tick t) \<le> 59
   \<and> 0 \<le> seconds (tick t) \<and> seconds (tick t) \<le> 59
   \<and> toSeconds (tick t) \<le> toSeconds t"
proof -
  assume h: "0 \<le> hours t" "hours t \<le> 2 ^ 53"
    and m: "0 \<le> minutes t" "minutes t \<le> 59"
    and s: "0 \<le> seconds t" "seconds t \<le> 59"
  from m s have "minutes t \<le> 2 ^ 53" "seconds t \<le> 2 ^ 53" by simp_all
  with h have e: "tick t =
     (if seconds t > 0 then t\<lparr>seconds := seconds t - 1\<rparr>
      else if minutes t > 0 then t\<lparr>minutes := minutes t - 1, seconds := 59\<rparr>
      else if hours t > 0 then \<lparr>hours = hours t - 1, minutes = 59, seconds = 59\<rparr>
      else t)"
    by (simp add: tick_exact)
  from h m s show ?thesis
    unfolding e by (simp add: toSeconds_def)
qed

theorem tick_preserves_range_witness:
  "tick initialTimeLeft = \<lparr>hours = 1, minutes = 24, seconds = 58\<rparr>
   \<and> toSeconds (tick initialTimeLeft) \<le> toSeconds initialTimeLeft
   \<and> seconds (tick \<lparr>hours = 1, minutes = 0, seconds = 0\<rparr>) \<le> 59
   \<and> minutes (tick \<lparr>hours = 1, minutes = 0, seconds = 0\<rparr>) \<le> 59
   \<and> 0 \<le> hours (tick \<lparr>hours = 1, minutes = 0, seconds = 0\<rparr>)"
  using tick_preserves_range [of initialTimeLeft]
    tick_preserves_range [of "\<lparr>hours = 1, minutes = 0, seconds = 0\<rparr>"]
  by (simp add: initialTimeLeft_def tick_def jsMinus_exact)

text \<open>
  C1, as stated for all \<open>H, M, S \<ge> 0\<close>, fails: from \<open>(0, 0, 2^54)\<close> the tick
  returns the state it was given, so after \<open>2^54\<close> ticks (and after any number) the
  state is still \<open>(0, 0, 2^54)\<close> and not \<open>(0, 0, 0)\<close>.
\<close>

theorem countdown_counterexample:
  "ticks (nat (0 * 3600 + 0 * 60 + 2 ^ 54)) \<lparr>hours = 0, minutes = 0, seconds = 2 ^ 54\<rparr>
     = \<lparr>hours = 0, minutes = 0, seconds = 2 ^ 54\<rparr>
   \<and> ticks (nat (0 * 3600 + 0 * 60 + 2 ^ 54)) \<lparr>hours = 0, minutes = 0, seconds = 2 ^ 54\<rparr>
     \<noteq> \<lparr>hours = 0, minutes = 0, seconds = 0\<rparr>"
proof -
  have "tick \<lparr>hours = 0, minutes = 0, seconds = 2 ^ 54\<rparr>
      = \<lparr>hours = 0, minutes = 0, seconds = 2 ^ 54\<rparr>"
    by (simp add: tick_def jsMinus_stuck_numeral)
  then have "ticks n \<lparr>hours = 0, minutes = 0, seconds = 2 ^ 54\<rparr>
      = \<lparr>hours = 0, minutes = 0, seconds = 2 ^ 54\<rparr>" for n
    by (rule ticks_fixed)
  then show ?thesis by simp
qed

text \<open>
  C1, amended. From a state \<open>(H, M, S)\<close> whose fields are whole numbers from \<open>0\<close>
  to \<open>2^53\<close>, the state \<open>(0, 0, 0)\<close> is reached after exactly
  \<open>H * 3600 + M * 60 + S\<close> ticks: it is the state after that many ticks, it is not
  the state after any smaller number of ticks, and any number of further ticks
  leaves the state there.
\<close>

theorem countdown_terminates:
  "0 \<le> H \<Longrightarrow> H \<le> 2 ^ 53 \<Longrightarrow> 0 \<le> M \<Longrightarrow> M \<le> 2 ^ 53 \<Longrightarrow> 0 \<le> S \<Longrightarrow> S \<le> 2 ^ 53 \<Longrightarrow>
   ticks (nat (H * 3600 + M * 60 + S)) \<lparr>hours = H, minutes = M, seconds = S\<rparr>
     = \<lparr>hours = 0, minutes = 0, seconds = 0\<rparr>
   \<and> (\<forall>j < nat (H * 3600 + M * 60 + S).
        ticks j \<lparr>hours = H, minutes = M, seconds = S\<rparr>
          \<noteq> \<lparr>hours = 0, minutes = 0, seconds = 0\<rparr>)
   \<and> ticks (nat (H * 3600 + M * 60 + S) + k) \<lparr>hours = H, minutes = M, seconds = S\<rparr>
     = \<lparr>hours = 0, minutes = 0, seconds = 0\<rparr>
   \<and> tick \<lparr>hours = 0, minutes = 0, seconds = 0\<rparr> = \<lparr>hours = 0, minutes = 0, seconds = 0\<rparr>"
proof -
  assume H: "0 \<le> H" "H \<le> 2 ^ 53" and M: "0 \<le> M" "M \<le> 2 ^ 53"
    and S: "0 \<le> S" "S \<le> 2 ^ 53"
  let ?t = "\<lparr>hours = H, minutes = M, seconds = S\<rparr>"
  let ?n = "nat (H * 3600 + M * 60 + S)"
  have sf: "safe ?t" using H M S by (simp add: safe_def)
  have total: "toSeconds ?t = int ?n" using H M S by (simp add: toSeconds_def)
  have "toSeconds (ticks ?n ?t) = max (toSeconds ?t - int ?n) 0"
    using sf by (rule toSeconds_ticks)
  then have "toSeconds (ticks ?n ?t) = 0" using total by simp
  with ticks_safe [OF sf, of ?n]
  have reach: "ticks ?n ?t = zeroTime"
    by (rule toSeconds_zero)
  have early: "ticks j ?t \<noteq> zeroTime" if "j < ?n" for j
  proof
    assume "ticks j ?t = zeroTime"
    then have "toSeconds (ticks j ?t) = 0" by (simp add: toSeconds_zeroTime)
    moreover have "toSeconds (ticks j ?t) = max (toSeconds ?t - int j) 0"
      using sf by (rule toSeconds_ticks)
    moreover have "int j < toSeconds ?t"
      using that total by (metis of_nat_less_iff)
    ultimately show False by (simp add: max_def split: if_splits)
  qed
  have "ticks (?n + k) ?t = ticks k (ticks ?n ?t)" by (rule ticks_add)
  also have "\<dots> = zeroTime"
    using reach by (simp add: ticks_fixed tick_zero)
  finally have stay: "ticks (?n + k) ?t = zeroTime" .
  from reach early stay tick_zero show ?thesis by (simp add: zeroTime_def)
qed

theorem countdown_terminates_witness:
  "ticks 3 \<lparr>hours = 0, minutes = 0, seconds = 3\<rparr> = \<lparr>hours = 0, minutes = 0, seconds = 0\<rparr>
   \<and> ticks 2 \<lparr>hours = 0, minutes = 0, seconds = 3\<rparr> \<noteq> \<lparr>hours = 0, minutes = 0, seconds = 0\<rparr>
   \<and> ticks 4 \<lparr>hours = 0, minutes = 0, seconds = 3\<rparr> = \<lparr>hours = 0, minutes = 0, seconds = 0\<rparr>
   \<and> ticks 5099 initialTimeLeft = \<lparr>hours = 0, minutes = 0, seconds = 0\<rparr>
   \<and> ticks 5098 initialTimeLeft \<noteq> \<lparr>hours = 0, minutes = 0, seconds = 0\<rparr>"
proof -
  have b: "(0::int) \<le> 0" "(0::int) \<le> 2 ^ 53" "(0::int) \<le> 3" "(3::int) \<le> 2 ^ 53"
    "(0::int) \<le> 1" "(1::int) \<le> 2 ^ 53" "(0::int) \<le> 24" "(24::int) \<le> 2 ^ 53"
    "(0::int) \<le> 59" "(59::int) \<le> 2 ^ 53"
    by simp_all
  note short = countdown_terminates [OF b(1) b(2) b(1) b(2) b(3) b(4), of 1]
  note full = countdown_terminates [OF b(5) b(6) b(7) b(8) b(9) b(10), of 0]
  have n3: "nat (0 * 3600 + 0 * 60 + 3) = 3" and n5099: "nat (1 * 3600 + 24 * 60 + 59) = 5099"
    by simp_all
  from short have "ticks 3 \<lparr>hours = 0, minutes = 0, seconds = 3\<rparr>
      = \<lparr>hours = 0, minutes = 0, seconds = 0\<rparr>"
    unfolding n3 by (rule conjunct1)
  moreover from short have "\<forall>j<3. ticks j \<lparr>hours = 0, minutes = 0, seconds = 3\<rparr>
      \<noteq> \<lparr>hours = 0, minutes = 0, seconds = 0\<rparr>"
    unfolding n3 by blast
  then have "ticks 2 \<lparr>hours = 0, minutes = 0, seconds = 3\<rparr>
      \<noteq> \<lparr>hours = 0, minutes = 0, seconds = 0\<rparr>"
    by simp
  moreover from short have "ticks (3 + 1) \<lparr>hours = 0, minutes = 0, seconds = 3\<rparr>
      = \<lparr>hours = 0, minutes = 0, seconds = 0\<rparr>"
    unfolding n3 by blast
  then have "ticks 4 \<lparr>hours = 0, minutes = 0, seconds = 3\<rparr>
      = \<lparr>hours = 0, minutes = 0, seconds = 0\<rparr>"
    by simp
  moreover from full have "ticks 5099 \<lparr>hours = 1, minutes = 24, seconds = 59\<rparr>
      = \<lparr>hours = 0, minutes = 0, seconds = 0\<rparr>"
    unfolding n5099 by (rule conjunct1)
  moreover from full have early: "\<forall>j<5099. ticks j \<lparr>hours = 1, minutes = 24, seconds = 59\<rparr>
      \<noteq> \<lparr>hours = 0, minutes = 0, seconds = 0\<rparr>"
    unfolding n5099 by blast
  have "ticks 5098 \<lparr>hours = 1, minutes = 24, seconds = 59\<rparr>
      \<noteq> \<lparr>hours = 0, minutes = 0, seconds = 0\<rparr>"
    using early [rule_format, of 5098] by simp
  ultimately show ?thesis unfolding initialTimeLeft_def by blast
qed

section \<open>Properties of formatting\<close>

lemma digitsOf_small: "n < 10 \<Longrightarrow> digitsOf n = [digitChar n]"
  by (simp add: digitsOf.simps)

lemma digitsOf_two: "10 \<le> n \<Longrightarrow> n < 100 \<Longrightarrow> digitsOf n = [digitChar (n div 10), digitChar (n mod 10)]"
  by (subst digitsOf.simps) (simp add: digitsOf_small)

lemma format_small: "0 \<le> n \<Longrightarrow> n < 10 \<Longrightarrow> format n = [CHR ''0'', digitChar (nat n)]"
  by (simp add: format_def toString_def padStart_def digitsOf_small)

lemma format_two: "10 \<le> n \<Longrightarrow> n < 100 \<Longrightarrow> format n = [digitChar (nat n div 10), digitChar (nat n mod 10)]"
  by (simp add: format_def toString_def padStart_def digitsOf_two)

lemma digitChar_0: "digitChar 0 = CHR ''0''"
  by (simp add: digitChar_def)

text \<open>
  C7. For \<open>0 \<le> n \<le> 59\<close>, \<open>format n\<close> has exactly two characters: the tens digit
  and the units digit of \<open>n\<close>, which is the decimal rendering of \<open>n\<close> with \<open>0\<close>
  put in front when it has one digit only (so \<open>format 5\<close> is \<open>05\<close> and
  \<open>format 42\<close> is \<open>42\<close>).
\<close>

theorem format_two_digits:
  "0 \<le> n \<Longrightarrow> n \<le> 59 \<Longrightarrow>
   length (format n) = 2
   \<and> format n = [digitChar (nat n div 10), digitChar (nat n mod 10)]
   \<and> format n = replicate (2 - length (toString n)) CHR ''0'' @ toString n"
proof (cases "n < 10")
  case True
  assume "0 \<le> n"
  with True show ?thesis
    by (simp add: format_small digitChar_0 toString_def digitsOf_small)
next
  case False
  assume "n \<le> 59"
  with False show ?thesis
    by (simp add: format_two toString_def digitsOf_two)
qed

theorem format_two_digits_witness:
  "format 5 = ''05'' \<and> format 42 = ''42'' \<and> format 0 = ''00'' \<and> format 59 = ''59''"
  using format_two_digits [of 5] format_two_digits [of 42] format_two_digits [of 0] format_two_digits [of 59]
  by (simp add: digitChar_def)

section \<open>Properties of the lifecycle\<close>

lemma owned_world0: "owned world0"
  by (simp add: owned_def world0_def)

lemma owned_step: "owned w \<Longrightarrow> owned (step e w)"
  by (cases e)
    (auto simp: owned_def mount_def unmount_def fire_def setTimeLeft_def setInterval_def
      clearInterval_def split: option.splits prod.splits)

lemma run_append: "run (es @ fs) w = run fs (run es w)"
  by (simp add: run_def)

lemma owned_run: "owned w \<Longrightarrow> owned (run es w)"
  unfolding run_def by (induction es arbitrary: w) (simp_all add: owned_step)

lemma unmount_released: "owned w \<Longrightarrow> intervals (unmount w) = [] \<and> mounted (unmount w) = None"
  by (auto simp: owned_def unmount_def clearInterval_def split: option.splits)

lemma idle_step:
  "intervals w = [] \<Longrightarrow> mounted w = None \<Longrightarrow> e \<noteq> Mount \<Longrightarrow> step e w = w"
  by (cases e) (simp_all add: fire_def canFire_def unmount_def)

lemma idle_run:
  "intervals w = [] \<Longrightarrow> mounted w = None \<Longrightarrow> Mount \<notin> set fs \<Longrightarrow> run fs w = w"
  unfolding run_def
proof (induction fs)
  case Nil
  then show ?case by simp
next
  case (Cons e fs)
  from Cons.prems have "e \<noteq> Mount" by auto
  with Cons.prems have "step e w = w" by (simp add: idle_step)
  with Cons show ?case by simp
qed

text \<open>
  C8. Disposal releases the interval without condition: after an \<open>Unmount\<close>,
  whatever happened before, no interval is scheduled, so no callback can fire and
  firing attempts change nothing, until an instance is mounted again.
\<close>

theorem timer_released_on_dispose:
  "Mount \<notin> set fs \<Longrightarrow>
   intervals (run (es @ [Unmount]) world0) = []
   \<and> run (es @ Unmount # fs) world0 = run (es @ [Unmount]) world0
   \<and> \<not> canFire h (run (es @ Unmount # fs) world0)"
proof -
  assume fs: "Mount \<notin> set fs"
  let ?w = "run es world0"
  have "owned ?w" by (simp add: owned_run owned_world0)
  then have rel: "intervals (unmount ?w) = []" "mounted (unmount ?w) = None"
    by (simp_all add: unmount_released)
  have u: "run (es @ [Unmount]) world0 = unmount ?w"
    by (simp add: run_def)
  have "run (es @ Unmount # fs) world0 = run fs (unmount ?w)"
    by (simp add: run_def)
  also have "\<dots> = unmount ?w" using rel fs by (rule idle_run)
  finally have same: "run (es @ Unmount # fs) world0 = unmount ?w" .
  from rel same u show ?thesis by (simp add: canFire_def)
qed

theorem timer_released_on_dispose_witness:
  "canFire 1 (run [Mount, Fire 1] world0)
   \<and> \<not> canFire 1 (run [Mount, Fire 1, Unmount, Fire 1, Fire 1] world0)
   \<and> mounted (run [Mount, Fire 1] world0) = Some (\<lparr>hours = 1, minutes = 24, seconds = 58\<rparr>, 1)
   \<and> run [Mount, Fire 1, Unmount, Fire 1, Fire 1] world0 = run [Mount, Fire 1, Unmount] world0"
  using timer_released_on_dispose [of "[Fire 1, Fire 1]" "[Mount, Fire 1]" 1]
  by (simp add: run_def world0_def mount_def fire_def canFire_def setTimeLeft_def
      setInterval_def initialTimeLeft_def tick_def jsMinus_exact)

text \<open>
  C9. A freshly mounted instance starts from the constant state of 1 hour, 24 minutes
  and 59 seconds: mounting takes no clock as input, and a mount that follows a
  disposal starts from the constant again, whatever the earlier instance had reached.
\<close>

theorem fresh_mount_initial:
  "map_option fst (mounted (run (es @ [Unmount, Mount]) w)) = Some \<lparr>hours = 1, minutes = 24, seconds = 59\<rparr>
   \<and> map_option fst (mounted (mount world0)) = Some \<lparr>hours = 1, minutes = 24, seconds = 59\<rparr>
   \<and> (mounted w = None \<longrightarrow> map_option fst (mounted (mount w)) = Some \<lparr>hours = 1, minutes = 24, seconds = 59\<rparr>)"
proof -
  have m: "mounted v = None \<Longrightarrow> map_option fst (mounted (mount v)) = Some \<lparr>hours = 1, minutes = 24, seconds = 59\<rparr>" for v
    by (simp add: mount_def setInterval_def initialTimeLeft_def)
  have u: "mounted (unmount v) = None" for v
    by (simp add: unmount_def clearInterval_def split: option.splits prod.splits)
  have "run (es @ [Unmount, Mount]) w = mount (unmount (run es w))"
    by (simp add: run_def)
  then have "map_option fst (mounted (run (es @ [Unmount, Mount]) w)) = Some \<lparr>hours = 1, minutes = 24, seconds = 59\<rparr>"
    using m [OF u, of "run es w"] by simp
  moreover have "map_option fst (mounted (mount world0)) = Some \<lparr>hours = 1, minutes = 24, seconds = 59\<rparr>"
    by (rule m) (simp add: world0_def)
  ultimately show ?thesis using m [of w] by simp
qed

theorem fresh_mount_initial_witness:
  "map_option fst (mounted (run [Mount, Fire 1, Fire 1, Unmount, Mount] world0))
     = Some \<lparr>hours = 1, minutes = 24, seconds = 59\<rparr>
   \<and> map_option fst (mounted (run [Mount, Fire 1, Fire 1] world0))
     = Some \<lparr>hours = 1, minutes = 24, seconds = 57\<rparr>
   \<and> mounted world0 = None"
  using fresh_mount_initial [of "[Mount, Fire 1, Fire 1]" world0]
  by (simp add: run_def world0_def mount_def fire_def canFire_def setTimeLeft_def
      setInterval_def initialTimeLeft_def tick_def jsMinus_exact)

section \<open>Properties of the Visibility Trigger and the Disclosure Toggle\<close>

lemma callback_visible: "isVisible (observerCallback entries r) = (isVisible r \<or> intersects entries)"
  unfolding observerCallback_def intersects_def
  by (induction entries arbitrary: r) (auto simp: setIsVisible_def)

lemma callback_observed: "observed (observerCallback entries r) = observed r"
  unfolding observerCallback_def
  by (induction entries arbitrary: r) (auto simp: setIsVisible_def)

lemma cleanup_unobserves: "observed (useScrollReveal_cleanup True r) = False"
  by (simp add: useScrollReveal_cleanup_def)

lemma deliver_visible: "isVisible (deliver batches r) = (isVisible r \<or> list_ex intersects batches)"
  unfolding deliver_def
  by (induction batches arbitrary: r) (auto simp: callback_visible)

text \<open>
  C3. The flag is false at first and stays false while no delivered batch reports an
  intersection; after a batch that reports one it is true, and it stays true under
  every later sequence of batches, intersecting or not: no notification sets it back.
\<close>

theorem visibility_one_way:
  "\<not> isVisible useScrollReveal_initial
   \<and> (\<not> list_ex intersects pre \<longrightarrow> \<not> isVisible (deliver pre useScrollReveal_initial))
   \<and> (intersects entries \<longrightarrow>
        isVisible (deliver (pre @ [entries]) useScrollReveal_initial)
        \<and> isVisible (deliver (pre @ [entries] @ post) useScrollReveal_initial))
   \<and> (isVisible r \<longrightarrow> isVisible (observerCallback entries r) \<and> isVisible (deliver post r))"
  by (simp add: deliver_visible callback_visible useScrollReveal_initial_def)

theorem visibility_one_way_witness:
  "\<not> isVisible (deliver [[\<lparr>isIntersecting = False\<rparr>]] useScrollReveal_initial)
   \<and> isVisible (deliver [[\<lparr>isIntersecting = False\<rparr>], [\<lparr>isIntersecting = True\<rparr>]] useScrollReveal_initial)
   \<and> isVisible (deliver [[\<lparr>isIntersecting = False\<rparr>], [\<lparr>isIntersecting = True\<rparr>],
        [\<lparr>isIntersecting = False\<rparr>], []] useScrollReveal_initial)
   \<and> isVisible (observerCallback [\<lparr>isIntersecting = False\<rparr>] \<lparr>isVisible = True, observed = True\<rparr>)"
  using visibility_one_way [of "[[\<lparr>isIntersecting = False\<rparr>]]" "[\<lparr>isIntersecting = True\<rparr>]"
      "[[\<lparr>isIntersecting = False\<rparr>], []]" "\<lparr>isVisible = True, observed = True\<rparr>"]
    visibility_one_way [of "[[\<lparr>isIntersecting = False\<rparr>]]" "[\<lparr>isIntersecting = False\<rparr>]"
      "[]" "\<lparr>isVisible = True, observed = True\<rparr>"]
  by (simp add: intersects_def)

text \<open>
  C4, as stated, fails: on a host without \<open>IntersectionObserver\<close> the first render
  reports the region as not visible and the effect then raises a \<open>ReferenceError\<close>.
\<close>

theorem fallback_counterexample:
  "useScrollReveal_mount \<lparr>hasIntersectionObserver = False\<rparr> True = (False, Inl ReferenceError)"
  by (simp add: useScrollReveal_mount_def useScrollReveal_effect_def useScrollReveal_initial_def)

text \<open>
  C4, amended. The hook has no fallback: without the capability, mounting reports the
  flag as false and its effect fails with a \<open>ReferenceError\<close>; with the capability,
  mounting does not fail, the flag starts false and the element is observed when
  there is one.
\<close>

theorem no_capability_no_fallback:
  "(\<not> hasIntersectionObserver h \<longrightarrow>
      useScrollReveal_mount h current = (False, Inl ReferenceError))
   \<and> (hasIntersectionObserver h \<longrightarrow>
      useScrollReveal_mount h current = (False, Inr \<lparr>isVisible = False, observed = current\<rparr>))"
  by (simp add: useScrollReveal_mount_def useScrollReveal_effect_def useScrollReveal_initial_def)

theorem no_capability_no_fallback_witness:
  "useScrollReveal_mount \<lparr>hasIntersectionObserver = False\<rparr> False = (False, Inl ReferenceError)
   \<and> useScrollReveal_mount \<lparr>hasIntersectionObserver = True\<rparr> True
       = (False, Inr \<lparr>isVisible = False, observed = True\<rparr>)"
  using no_capability_no_fallback [of "\<lparr>hasIntersectionObserver = False\<rparr>" False]
    no_capability_no_fallback [of "\<lparr>hasIntersectionObserver = True\<rparr>" True]
  by simp

text \<open>
  C5. In a list of items, a click on item \<open>i\<close> flips item \<open>i\<close>, leaves every other
  item as it was, and a second click on it gives the original list back.
\<close>

theorem toggle_independent_involution:
  "(j \<noteq> i \<longrightarrow> j < length items \<longrightarrow> click i items ! j = items ! j)
   \<and> (i < length items \<longrightarrow> click i items ! i = (\<not> items ! i))
   \<and> length (click i items) = length items
   \<and> click i (click i items) = items"
  by (simp add: click_def onClick_def)

theorem toggle_independent_involution_witness:
  "click 0 [FAQItem_initial, FAQItem_initial] = [True, False]
   \<and> click 0 (click 0 [FAQItem_initial, FAQItem_initial]) = [False, False]
   \<and> click 1 [True, False, True, False] ! 2 = True"
  using toggle_independent_involution [of 1 0 "[False, False]"]
    toggle_independent_involution [of 2 1 "[True, False, True, False]"]
  by (simp add: click_def onClick_def FAQItem_initial_def)

end
